theory Spec2Isabelle
  imports Complex_Main "HOL-Library.Multiset"
begin

section \<open>Values, errors and the remote service\<close>

text \<open>
  The server handles parsed JSON: the tool arguments, the remote responses and the permit
  features are Python values built from \<open>None\<close>, \<open>bool\<close>, \<open>int\<close>, \<open>float\<close>, \<open>str\<close>,
  \<open>list\<close> and \<open>dict\<close>. A float is represented by the rational number it denotes (its
  truth value and its order against integers are those of that number; NaN and the
  infinities are left out). A dictionary is an association list with distinct keys, in
  insertion order. A string is a list of characters, a \<open>char\<close> standing for one code
  point (HOL's characters are the code points below 256).
\<close>

datatype json =
    JNull
  | JBool bool
  | JInt int
  | JFloat rat
  | JStr string
  | JList "json list"
  | JObj "(string \<times> json) list"

text \<open>
  The exceptions the code can meet. \<open>Exception\<close> is the one \<open>query_permit_api\<close> raises
  itself; \<open>ValueError\<close> carries its message because a handler prints it.
  \<open>NotModelled\<close> is no exception of Python: it marks the inputs this model leaves out
  (a float where the tool schema declares an integer, a filter that is not a string, a
  sort over keys that are strings or lists), and no theorem below speaks about them.
\<close>

datatype py_error =
    AttributeError
  | TypeError
  | ValueError string
  | OSError
  | OverflowError
  | IndexError
  | KeyError
  | Exception string
  | NotModelled

type_synonym 'a result = "py_error + 'a"

text \<open>The query parameters of one HTTP GET (\<open>params\<close> in \<open>query_permit_api\<close>).\<close>

record request =
  where_param :: string
  outFields :: string
  f_param :: string
  returnGeometry :: string
  resultOffset :: "int option"
  resultRecordCount :: "int option"
  returnCountOnly :: "string option"

text \<open>
  What one GET can end in: \<open>httpx.HTTPError\<close> with its text (transport failure, timeout,
  a status that \<open>raise_for_status\<close> rejects), a body that \<open>response.json()\<close> cannot
  decode (\<open>JSONDecodeError\<close>, a \<open>ValueError\<close>), or the decoded body.
\<close>

datatype response = HTTPError string | NotJSON string | Body json

text \<open>
  The remote service is outside the program. It is any function from the requests
  answered so far in this call and the current request to a response: it may answer by
  position, by content, or both, and nothing is assumed about it.
\<close>

type_synonym remote = "request list \<Rightarrow> request \<Rightarrow> response"

subsection \<open>Python's operations on values\<close>

fun truthy :: "json \<Rightarrow> bool" where
  "truthy JNull = False"
| "truthy (JBool b) = b"
| "truthy (JInt n) = (n \<noteq> 0)"
| "truthy (JFloat q) = (q \<noteq> 0)"
| "truthy (JStr s) = (s \<noteq> [])"
| "truthy (JList xs) = (xs \<noteq> [])"
| "truthy (JObj kvs) = (kvs \<noteq> [])"

text \<open>\<open>d.get(k, default)\<close>: only a dictionary has the method.\<close>

fun py_get :: "json \<Rightarrow> string \<Rightarrow> json \<Rightarrow> json result" where
  "py_get (JObj kvs) k dflt = Inr (case map_of kvs k of None \<Rightarrow> dflt | Some v \<Rightarrow> v)"
| "py_get _ k dflt = Inl AttributeError"

text \<open>Iterating a value, as \<open>list.extend\<close> does: a dictionary yields its keys, a string
  its characters.\<close>

fun py_iter :: "json \<Rightarrow> json list result" where
  "py_iter (JList xs) = Inr xs"
| "py_iter (JStr s) = Inr (map (\<lambda>c. JStr [c]) s)"
| "py_iter (JObj kvs) = Inr (map (\<lambda>kv. JStr (fst kv)) kvs)"
| "py_iter _ = Inl TypeError"

text \<open>Sequencing of computations that may raise.\<close>

definition and_then :: "'a result \<Rightarrow> ('a \<Rightarrow> 'b result) \<Rightarrow> 'b result" where
  "and_then r k = (case r of Inl e \<Rightarrow> Inl e | Inr x \<Rightarrow> k x)"

text \<open>A list comprehension \<open>[g(x) for x in xs]\<close>: the first exception ends it.\<close>

fun traverse :: "('a \<Rightarrow> 'b result) \<Rightarrow> 'a list \<Rightarrow> 'b list result" where
  "traverse g [] = Inr []"
| "traverse g (x # xs) =
     (case g x of
        Inl e \<Rightarrow> Inl e
      | Inr y \<Rightarrow> (case traverse g xs of Inl e \<Rightarrow> Inl e | Inr ys \<Rightarrow> Inr (y # ys)))"

text \<open>\<open>d.get(k, default)\<close> on a value known to be a dictionary.\<close>

definition dict_get :: "(string \<times> json) list \<Rightarrow> string \<Rightarrow> json \<Rightarrow> json" where
  "dict_get kvs k dflt = (case map_of kvs k of None \<Rightarrow> dflt | Some v \<Rightarrow> v)"

text \<open>The number a value stands for in arithmetic; \<open>bool\<close> is a subclass of \<open>int\<close>.\<close>

fun num_of :: "json \<Rightarrow> rat option" where
  "num_of (JInt n) = Some (of_int n)"
| "num_of (JFloat q) = Some q"
| "num_of (JBool b) = Some (if b then 1 else 0)"
| "num_of _ = None"

text \<open>\<open>x[0]\<close> on a value that passed a truth test.\<close>

fun py_first :: "json \<Rightarrow> json result" where
  "py_first (JList []) = Inl IndexError"
| "py_first (JList (x # xs)) = Inr x"
| "py_first (JStr []) = Inl IndexError"
| "py_first (JStr (c # cs)) = Inr (JStr [c])"
| "py_first (JObj kvs) = Inl KeyError"
| "py_first _ = Inl TypeError"

text \<open>\<open>xs[:n]\<close> on a list: a negative bound counts from the end.\<close>

definition py_slice_to :: "int \<Rightarrow> 'a list \<Rightarrow> 'a list" where
  "py_slice_to n xs = (if 0 \<le> n then take (nat n) xs else take (length xs - nat (- n)) xs)"

abbreviation (input) sq :: char where
  "sq \<equiv> CHR 0x27"

definition nl :: string where
  "nl = [CHR 0x0A]"

text \<open>\<open>"\n".join(results)\<close>.\<close>

fun join_nl :: "string list \<Rightarrow> string" where
  "join_nl [] = []"
| "join_nl [x] = x"
| "join_nl (x # y # ys) = x @ nl @ join_nl (y # ys)"

text \<open>\<open>str(n)\<close> for integers.\<close>

fun show_nat :: "nat \<Rightarrow> string" where
  "show_nat n =
     (if n < 10 then [''0123456789'' ! n]
      else show_nat (n div 10) @ [''0123456789'' ! (n mod 10)])"

declare show_nat.simps [simp del]

definition show_int :: "int \<Rightarrow> string" where
  "show_int i = (if i < 0 then ''-'' @ show_nat (nat (- i)) else show_nat (nat i))"

text \<open>\<open>s.replace("'", "''")\<close>: every quote character becomes two.\<close>

definition py_replace_quote :: "string \<Rightarrow> string" where
  "py_replace_quote s = concat (map (\<lambda>c. if c = sq then [sq, sq] else [c]) s)"

subsection \<open>Library functions taken as parameters\<close>

text \<open>
  The code calls into \<open>datetime\<close> and the format mini-language, whose results depend on
  the local time zone, the clock and floating-point rounding. They are parameters of the
  model, each standing for the Python expression named beside it, applied to the number
  or string given:
  \<^item> \<open>str_other\<close>: \<open>str(v)\<close> for a float, a list or a dictionary;
  \<^item> \<open>date_of_ms\<close>: \<open>datetime.fromtimestamp(v / 1000).strftime("%Y-%m-%d")\<close>;
  \<^item> \<open>format_6f\<close>: \<open>f"{v:.6f}"\<close>; \<open>format_grouped\<close>: \<open>f"{v:,.0f}"\<close>;
  \<^item> \<open>ms_of_date\<close>: \<open>int(datetime.strptime(s, "%Y-%m-%d").timestamp() * 1000)\<close>;
  \<^item> \<open>cutoff_ms\<close>: \<open>int((midnight.timestamp() - (days * 24 * 60 * 60)) * 1000)\<close> where
    \<open>midnight\<close> is \<open>datetime.now()\<close> with the time of day set to zero.
  Each may raise, so each returns a result.
\<close>

record pylib =
  str_other :: "json \<Rightarrow> string"
  date_of_ms :: "rat \<Rightarrow> string result"
  format_6f :: "rat \<Rightarrow> string result"
  format_grouped :: "rat \<Rightarrow> string result"
  ms_of_date :: "string \<Rightarrow> int result"
  cutoff_ms :: "rat \<Rightarrow> int result"

text \<open>\<open>str(v)\<close>, as an f-string field without a format spec renders it.\<close>

definition py_str :: "pylib \<Rightarrow> json \<Rightarrow> string" where
  "py_str lib v =
     (case v of
        JNull \<Rightarrow> ''None''
      | JBool b \<Rightarrow> (if b then ''True'' else ''False'')
      | JInt n \<Rightarrow> show_int n
      | JStr s \<Rightarrow> s
      | _ \<Rightarrow> str_other lib v)"

text \<open>An f-string field with an \<open>f\<close> format spec: numbers only.\<close>

definition py_format_f :: "(rat \<Rightarrow> string result) \<Rightarrow> json \<Rightarrow> string result" where
  "py_format_f fmt v =
     (case num_of v of
        Some q \<Rightarrow> fmt q
      | None \<Rightarrow>
          (case v of
             JStr s \<Rightarrow> Inl (ValueError (''Unknown format code '' @ [sq] @ ''f'' @ [sq]
                                          @ '' for object of type '' @ [sq] @ ''str'' @ [sq]))
           | _ \<Rightarrow> Inl TypeError))"

section \<open>The remote query and the pagination loop\<close>

text \<open>
  The world of one tool call is the list of requests issued so far; every function that
  talks to the remote service takes it and returns it extended.
\<close>

definition build_params ::
  "string \<Rightarrow> string \<Rightarrow> int option \<Rightarrow> int option \<Rightarrow> bool \<Rightarrow> request" where
  "build_params where_clause out_fields result_offset max_records return_count_only =
     \<lparr> where_param = where_clause, outFields = out_fields,
       f_param = ''geojson'', returnGeometry = ''true'',
       resultOffset = result_offset, resultRecordCount = max_records,
       returnCountOnly = (if return_count_only then Some ''true'' else None) \<rparr>"

definition query_permit_api ::
  "remote \<Rightarrow> string \<Rightarrow> string \<Rightarrow> int option \<Rightarrow> int option \<Rightarrow> bool \<Rightarrow> request list
     \<Rightarrow> json result \<times> request list" where
  "query_permit_api srv where_clause out_fields result_offset max_records return_count_only sent =
     (let params = build_params where_clause out_fields result_offset max_records
                     return_count_only
      in (case srv sent params of
            HTTPError msg \<Rightarrow> Inl (Exception (''Failed to fetch permit data: '' @ msg))
          | NotJSON msg \<Rightarrow> Inl (ValueError msg)
          | Body data \<Rightarrow> Inr data,
          sent @ [params]))"

text \<open>The dictionary \<open>query_permit_api_paginated\<close> returns (its \<open>type\<close> entry is constant).\<close>

record collection =
  features :: "json list"
  totalRetrieved :: nat

definition collection_of :: "json list \<Rightarrow> collection" where
  "collection_of all_features =
     \<lparr> features = all_features, totalRetrieved = length all_features \<rparr>"

text \<open>
  The \<open>while\<close> loop of \<open>query_permit_api_paginated\<close>, with its variables \<open>all_features\<close>
  and \<open>offset\<close> as arguments. \<open>max_records = None\<close> stands for \<open>float('inf')\<close>: the guard
  is then always true and the batch is the page size. The loop may not return, so its
  value is an option: \<open>None\<close> is a run that never ends.
\<close>

partial_function (option) pagination_loop ::
  "remote \<Rightarrow> string \<Rightarrow> string \<Rightarrow> int option \<Rightarrow> int \<Rightarrow> json list \<Rightarrow> int \<Rightarrow> request list
     \<Rightarrow> (collection result \<times> request list) option" where
  "pagination_loop srv where_clause out_fields max_records page_size all_features offset sent =
     (if (case max_records of None \<Rightarrow> True | Some m \<Rightarrow> int (length all_features) < m) then
        (let batch_size = (case max_records of
                             None \<Rightarrow> page_size
                           | Some m \<Rightarrow> min page_size (m - int (length all_features)));
             answer = query_permit_api srv where_clause out_fields
                        (Some offset) (Some batch_size) False sent
         in (case fst answer of
               Inl e \<Rightarrow> Some (Inl e, snd answer)
             | Inr data \<Rightarrow>
                 (case py_get data ''features'' (JList []) of
                    Inl e \<Rightarrow> Some (Inl e, snd answer)
                  | Inr feats \<Rightarrow>
                      if \<not> truthy feats then Some (Inr (collection_of all_features), snd answer)
                      else (case py_iter feats of
                              Inl e \<Rightarrow> Some (Inl e, snd answer)
                            | Inr fs \<Rightarrow>
                                if int (length fs) < batch_size
                                then Some (Inr (collection_of (all_features @ fs)), snd answer)
                                else (case py_get data ''exceededTransferLimit'' (JBool False) of
                                        Inl e \<Rightarrow> Some (Inl e, snd answer)
                                      | Inr flag \<Rightarrow>
                                          if \<not> truthy flag
                                          then Some (Inr (collection_of (all_features @ fs)),
                                                     snd answer)
                                          else pagination_loop srv where_clause out_fields
                                                 max_records page_size (all_features @ fs)
                                                 (offset + int (length fs)) (snd answer))))))
      else Some (Inr (collection_of all_features), sent))"

definition query_permit_api_paginated ::
  "remote \<Rightarrow> string \<Rightarrow> string \<Rightarrow> int option \<Rightarrow> int \<Rightarrow> request list
     \<Rightarrow> (collection result \<times> request list) option" where
  "query_permit_api_paginated srv where_clause out_fields max_records page_size sent =
     pagination_loop srv where_clause out_fields max_records page_size [] 0 sent"

section \<open>The record formatter\<close>

text \<open>The exceptions that the two \<open>try\<close> blocks of \<open>format_permit\<close> catch.\<close>

definition caught :: "py_error \<Rightarrow> bool" where
  "caught e = (case e of ValueError msg \<Rightarrow> True | TypeError \<Rightarrow> True | OSError \<Rightarrow> True
               | _ \<Rightarrow> False)"

text \<open>
  The block that renders \<open>IssuedDate\<close> and, in a second copy, \<open>ExpirationDate\<close>: a truthy
  value is divided by 1000 (a \<open>TypeError\<close> unless it is a number) and rendered as a date;
  a caught exception falls back to \<open>str\<close> of the value, any other one propagates.
\<close>

definition format_timestamp :: "pylib \<Rightarrow> json \<Rightarrow> string result" where
  "format_timestamp lib v =
     (if truthy v then
        (case (case num_of v of None \<Rightarrow> Inl TypeError | Some ms \<Rightarrow> date_of_ms lib ms) of
           Inr s \<Rightarrow> Inr s
         | Inl e \<Rightarrow> if caught e then Inr (py_str lib v) else Inl e)
      else Inr [])"

text \<open>\<open>lon, lat = geom["coordinates"]\<close> and the f-string that renders them.\<close>

definition format_coords :: "pylib \<Rightarrow> json \<Rightarrow> string result" where
  "format_coords lib c =
     (if truthy c then
        (case py_iter c of
           Inl e \<Rightarrow> Inl e
         | Inr [lon, lat] \<Rightarrow>
             and_then (py_format_f (format_6f lib) lat) (\<lambda>la.
             and_then (py_format_f (format_6f lib) lon) (\<lambda>lo.
             Inr (''('' @ la @ '', '' @ lo @ '')'')))
         | Inr vs \<Rightarrow>
             Inl (ValueError (if length vs < 2
                              then ''not enough values to unpack (expected 2, got ''
                                   @ show_nat (length vs) @ '')''
                              else ''too many values to unpack (expected 2)'')))
      else Inr [])"

text \<open>
  \<open>props.get('Description', 'N/A')[:200]\<close>, then rendered by the f-string. Strings and
  lists can be sliced; \<open>None\<close>, numbers and dictionaries raise \<open>TypeError\<close> (for a
  dictionary that is the exception of Python 3.11, which the repository's tests name).
\<close>

definition description_field :: "pylib \<Rightarrow> json \<Rightarrow> string result" where
  "description_field lib d =
     (case d of
        JStr s \<Rightarrow> Inr (take 200 s)
      | JList xs \<Rightarrow> Inr (py_str lib (JList (take 200 xs)))
      | _ \<Rightarrow> Inl TypeError)"

definition format_permit :: "pylib \<Rightarrow> json \<Rightarrow> string result" where
  "format_permit lib permit =
     and_then (py_get permit ''properties'' (JObj [])) (\<lambda>props.
     and_then (py_get permit ''geometry'' (JObj [])) (\<lambda>geom.
     and_then (py_get props ''IssuedDate'' JNull) (\<lambda>issued.
     and_then (format_timestamp lib issued) (\<lambda>issued_date.
     and_then (py_get props ''ExpirationDate'' JNull) (\<lambda>expires.
     and_then (format_timestamp lib expires) (\<lambda>expiration_date.
     and_then (py_get geom ''coordinates'' JNull) (\<lambda>c.
     and_then (format_coords lib c) (\<lambda>coords.
     and_then (py_get props ''Cost'' JNull) (\<lambda>cost.
     and_then (if truthy cost
               then and_then (py_format_f (format_grouped lib) cost) (\<lambda>digits. Inr (''$'' @ digits))
               else Inr ''N/A'') (\<lambda>cost_str.
     and_then (py_get props ''CaseNumber'' (JStr ''N/A'')) (\<lambda>case_number.
     and_then (py_get props ''Address'' (JStr ''N/A'')) (\<lambda>address.
     and_then (py_get props ''Neighborhood'' (JStr ''N/A'')) (\<lambda>neighborhood.
     and_then (py_get props ''Description'' (JStr ''N/A'')) (\<lambda>description.
     and_then (description_field lib description) (\<lambda>description_text.
     and_then (py_get props ''BLOCKLOT'' (JStr ''N/A'')) (\<lambda>blocklot.
     and_then (py_get props ''Council_District'' (JStr ''N/A'')) (\<lambda>district.
     and_then (py_get props ''ExistingUse'' (JStr ''N/A'')) (\<lambda>existing_use.
     and_then (py_get props ''ProposedUse'' (JStr ''N/A'')) (\<lambda>proposed_use.
     and_then (py_get props ''IsPermitModification'' JNull) (\<lambda>modification.
     Inr (nl @ ''    Permit: '' @ py_str lib case_number
          @ nl @ ''    Address: '' @ py_str lib address
          @ nl @ ''    Neighborhood: '' @ py_str lib neighborhood
          @ nl @ ''    Issued: '' @ issued_date
          @ nl @ ''    Expires: '' @ expiration_date
          @ nl @ ''    Cost: '' @ cost_str
          @ nl @ ''    Description: '' @ description_text @ ''...''
          @ nl @ ''    Block/Lot: '' @ py_str lib blocklot
          @ nl @ ''    Council District: '' @ py_str lib district
          @ nl @ ''    Existing Use: '' @ py_str lib existing_use
          @ nl @ ''    Proposed Use: '' @ py_str lib proposed_use
          @ nl @ ''    Location: '' @ coords
          @ nl @ ''    Modification: '' @ (if truthy modification then ''Yes'' else ''No'')
          @ nl @ ''---'')))))))))))))))))))))"

section \<open>The tool handlers\<close>

text \<open>
  The filter expressions that the branches of \<open>call_tool\<close> build. \<open>str.replace\<close> exists on
  strings only; the by-address branch tests the address for truth first.
\<close>

definition where_address :: "json \<Rightarrow> string result" where
  "where_address address =
     (if truthy address then
        (case address of
           JStr s \<Rightarrow> Inr (''Address LIKE '' @ [sq] @ ''%'' @ py_replace_quote s @ ''%'' @ [sq])
         | _ \<Rightarrow> Inl AttributeError)
      else Inr ''1=1'')"

definition where_neighborhood :: "json \<Rightarrow> string result" where
  "where_neighborhood neighborhood =
     (case neighborhood of
        JStr s \<Rightarrow> Inr (''Neighborhood LIKE '' @ [sq] @ ''%'' @ py_replace_quote s @ ''%'' @ [sq])
      | _ \<Rightarrow> Inl AttributeError)"

definition where_case_number :: "json \<Rightarrow> string result" where
  "where_case_number case_number =
     (case case_number of
        JStr s \<Rightarrow> Inr (''CaseNumber = '' @ [sq] @ py_replace_quote s @ [sq])
      | _ \<Rightarrow> Inl AttributeError)"

text \<open>
  The \<open>limit\<close> argument as the \<open>max_records\<close> of the paginated query (\<open>Optional[int]\<close>):
  \<open>None\<close> means all records, a \<open>bool\<close> is an \<open>int\<close>, and a string, list or dictionary
  raises \<open>TypeError\<close> at the loop's first comparison, before any request.
\<close>

definition limit_of :: "json \<Rightarrow> int option result" where
  "limit_of limit =
     (case limit of
        JNull \<Rightarrow> Inr None
      | JInt n \<Rightarrow> Inr (Some n)
      | JBool b \<Rightarrow> Inr (Some (if b then 1 else 0))
      | JFloat q \<Rightarrow> Inl NotModelled
      | _ \<Rightarrow> Inl TypeError)"

text \<open>
  The \<open>limit\<close> argument of the recent-permits branch, which computes \<open>limit * 2\<close>: that
  raises \<open>TypeError\<close> for \<open>None\<close> and for a dictionary at once, and for a string or a
  list at the loop's first comparison.
\<close>

definition int_limit_of :: "json \<Rightarrow> int result" where
  "int_limit_of limit =
     (case limit of
        JInt n \<Rightarrow> Inr n
      | JBool b \<Rightarrow> Inr (if b then 1 else 0)
      | JFloat q \<Rightarrow> Inl NotModelled
      | _ \<Rightarrow> Inl TypeError)"

text \<open>\<open>datetime.strptime\<close> wants a string.\<close>

definition parse_date :: "pylib \<Rightarrow> json \<Rightarrow> int result" where
  "parse_date lib v = (case v of JStr s \<Rightarrow> ms_of_date lib s | _ \<Rightarrow> Inl TypeError)"

text \<open>
  \<open>sorted(features, key=lambda x: x.get("properties", {}).get("IssuedDate", 0),
  reverse=True)\<close>. The keys are computed first. A list of at most one element needs no
  comparison. Numbers are ordered by value; the sort is stable, also with \<open>reverse\<close>
  (equal keys keep their order). Keys that are all strings, or that include a list, can
  be ordered by Python but are left out here; every other mix (\<open>None\<close>, a dictionary,
  numbers with strings) raises \<open>TypeError\<close> at some comparison.
\<close>

definition issued_key :: "json \<Rightarrow> json result" where
  "issued_key x =
     and_then (py_get x ''properties'' (JObj [])) (\<lambda>props. py_get props ''IssuedDate'' (JInt 0))"

fun is_list :: "json \<Rightarrow> bool" where
  "is_list (JList xs) = True"
| "is_list _ = False"

fun is_str :: "json \<Rightarrow> bool" where
  "is_str (JStr s) = True"
| "is_str _ = False"

definition sorted_by_issued_desc :: "json list \<Rightarrow> json list result" where
  "sorted_by_issued_desc xs =
     and_then (traverse issued_key xs) (\<lambda>keys.
       if length xs \<le> 1 then Inr xs
       else if list_all (\<lambda>k. num_of k \<noteq> None) keys
       then Inr (map snd (rev (sort_key fst (rev (zip (map (\<lambda>k. the (num_of k)) keys) xs)))))
       else if list_ex is_list keys \<or> list_all is_str keys then Inl NotModelled
       else Inl TypeError)"

type_synonym tool_outcome = "(string list result \<times> request list) option"

definition search_permits_by_address ::
  "pylib \<Rightarrow> remote \<Rightarrow> (string \<times> json) list \<Rightarrow> request list \<Rightarrow> tool_outcome" where
  "search_permits_by_address lib srv arguments sent =
     (let address = dict_get arguments ''address'' (JStr []);
          limit = dict_get arguments ''limit'' (JInt 50)
      in case where_address address of
           Inl e \<Rightarrow> Some (Inl e, sent)
         | Inr where_clause \<Rightarrow>
             (case limit_of limit of
                Inl e \<Rightarrow> Some (Inl e, sent)
              | Inr max_records \<Rightarrow>
                  (case query_permit_api_paginated srv where_clause ''*'' max_records 1000 sent of
                     None \<Rightarrow> None
                   | Some (Inl e, sent') \<Rightarrow> Some (Inl e, sent')
                   | Some (Inr data, sent') \<Rightarrow>
                       if features data = []
                       then Some (Inr [''No permits found matching address: ''
                                       @ py_str lib address], sent')
                       else (case traverse (format_permit lib) (features data) of
                               Inl e \<Rightarrow> Some (Inl e, sent')
                             | Inr results \<Rightarrow>
                                 Some (Inr [''Found '' @ show_nat (totalRetrieved data)
                                            @ '' permit(s) matching '' @ [sq]
                                            @ py_str lib address @ [sq] @ '':'' @ nl @ nl
                                            @ join_nl results], sent')))))"

definition search_permits_by_date_range ::
  "pylib \<Rightarrow> remote \<Rightarrow> (string \<times> json) list \<Rightarrow> request list \<Rightarrow> tool_outcome" where
  "search_permits_by_date_range lib srv arguments sent =
     (let start_date = dict_get arguments ''start_date'' (JStr []);
          end_date = dict_get arguments ''end_date'' (JStr []);
          limit = dict_get arguments ''limit'' (JInt 50)
      in case and_then (parse_date lib start_date) (\<lambda>start_ts.
              and_then (parse_date lib end_date) (\<lambda>end_ts. Inr (start_ts, end_ts))) of
           Inl (ValueError msg) \<Rightarrow>
             Some (Inr [''Invalid date format. Please use YYYY-MM-DD format. Error: '' @ msg],
                   sent)
         | Inl e \<Rightarrow> Some (Inl e, sent)
         | Inr (start_ts, end_ts) \<Rightarrow>
             (let where_clause = ''IssuedDate >= '' @ show_int start_ts
                                 @ '' AND IssuedDate <= '' @ show_int end_ts
              in case limit_of limit of
                   Inl e \<Rightarrow> Some (Inl e, sent)
                 | Inr max_records \<Rightarrow>
                     (case query_permit_api_paginated srv where_clause ''*'' max_records 1000
                             sent of
                        None \<Rightarrow> None
                      | Some (Inl e, sent') \<Rightarrow> Some (Inl e, sent')
                      | Some (Inr data, sent') \<Rightarrow>
                          if features data = []
                          then Some (Inr [''No permits found for date range ''
                                          @ py_str lib start_date @ '' to ''
                                          @ py_str lib end_date], sent')
                          else (case traverse (format_permit lib) (features data) of
                                  Inl e \<Rightarrow> Some (Inl e, sent')
                                | Inr results \<Rightarrow>
                                    Some (Inr [''Found '' @ show_nat (totalRetrieved data)
                                               @ '' permit(s) from '' @ py_str lib start_date
                                               @ '' to '' @ py_str lib end_date @ '':''
                                               @ nl @ nl @ join_nl results], sent')))))"

definition search_permits_by_neighborhood ::
  "pylib \<Rightarrow> remote \<Rightarrow> (string \<times> json) list \<Rightarrow> request list \<Rightarrow> tool_outcome" where
  "search_permits_by_neighborhood lib srv arguments sent =
     (let neighborhood = dict_get arguments ''neighborhood'' (JStr []);
          limit = dict_get arguments ''limit'' (JInt 50)
      in case where_neighborhood neighborhood of
           Inl e \<Rightarrow> Some (Inl e, sent)
         | Inr where_clause \<Rightarrow>
             (case limit_of limit of
                Inl e \<Rightarrow> Some (Inl e, sent)
              | Inr max_records \<Rightarrow>
                  (case query_permit_api_paginated srv where_clause ''*'' max_records 1000 sent of
                     None \<Rightarrow> None
                   | Some (Inl e, sent') \<Rightarrow> Some (Inl e, sent')
                   | Some (Inr data, sent') \<Rightarrow>
                       if features data = []
                       then Some (Inr [''No permits found in neighborhood: ''
                                       @ py_str lib neighborhood], sent')
                       else (case traverse (format_permit lib) (features data) of
                               Inl e \<Rightarrow> Some (Inl e, sent')
                             | Inr results \<Rightarrow>
                                 Some (Inr [''Found '' @ show_nat (totalRetrieved data)
                                            @ '' permit(s) in '' @ [sq]
                                            @ py_str lib neighborhood @ [sq] @ '':'' @ nl @ nl
                                            @ join_nl results], sent')))))"

definition search_permits_by_case_number ::
  "pylib \<Rightarrow> remote \<Rightarrow> (string \<times> json) list \<Rightarrow> request list \<Rightarrow> tool_outcome" where
  "search_permits_by_case_number lib srv arguments sent =
     (let case_number = dict_get arguments ''case_number'' (JStr [])
      in case where_case_number case_number of
           Inl e \<Rightarrow> Some (Inl e, sent)
         | Inr where_clause \<Rightarrow>
             (let answer = query_permit_api srv where_clause ''*'' None None False sent
              in case fst answer of
                   Inl e \<Rightarrow> Some (Inl e, snd answer)
                 | Inr data \<Rightarrow>
                     (case py_get data ''features'' JNull of
                        Inl e \<Rightarrow> Some (Inl e, snd answer)
                      | Inr feats \<Rightarrow>
                          if \<not> truthy feats
                          then Some (Inr [''No permit found with case number: ''
                                          @ py_str lib case_number], snd answer)
                          else (case and_then (py_first feats) (format_permit lib) of
                                  Inl e \<Rightarrow> Some (Inl e, snd answer)
                                | Inr result \<Rightarrow>
                                    Some (Inr [''Permit details:'' @ nl @ nl @ result],
                                          snd answer)))))"

definition get_recent_permits ::
  "pylib \<Rightarrow> remote \<Rightarrow> (string \<times> json) list \<Rightarrow> request list \<Rightarrow> tool_outcome" where
  "get_recent_permits lib srv arguments sent =
     (let limit = dict_get arguments ''limit'' (JInt 50);
          days = dict_get arguments ''days'' (JInt 30)
      in case (case num_of days of None \<Rightarrow> Inl TypeError | Some d \<Rightarrow> cutoff_ms lib d) of
           Inl e \<Rightarrow> Some (Inl e, sent)
         | Inr cutoff_ts \<Rightarrow>
             (let where_clause = ''IssuedDate >= '' @ show_int cutoff_ts
              in case int_limit_of limit of
                   Inl e \<Rightarrow> Some (Inl e, sent)
                 | Inr n \<Rightarrow>
                     (case query_permit_api_paginated srv where_clause ''*'' (Some (n * 2)) 1000
                             sent of
                        None \<Rightarrow> None
                      | Some (Inl e, sent') \<Rightarrow> Some (Inl e, sent')
                      | Some (Inr data, sent') \<Rightarrow>
                          if features data = []
                          then Some (Inr [''No permits found in the last '' @ py_str lib days
                                          @ '' days''], sent')
                          else (case and_then (sorted_by_issued_desc (features data))
                                       (\<lambda>ordered. traverse (format_permit lib)
                                                     (py_slice_to n ordered)) of
                                  Inl e \<Rightarrow> Some (Inl e, sent')
                                | Inr results \<Rightarrow>
                                    Some (Inr [''Found '' @ show_nat (length results)
                                               @ '' recent permit(s) (last '' @ py_str lib days
                                               @ '' days):'' @ nl @ nl @ join_nl results],
                                          sent')))))"

text \<open>
  \<open>data.get("properties", {}).get("count", 0) if "properties" in data else
  data.get("count", 0)\<close>: the membership test raises \<open>TypeError\<close> on a value that is no
  container, and a list or a string has no \<open>get\<close>.
\<close>

definition extract_count :: "json \<Rightarrow> json result" where
  "extract_count data =
     (case data of
        JObj kvs \<Rightarrow>
          (case map_of kvs ''properties'' of
             Some props \<Rightarrow> py_get props ''count'' (JInt 0)
           | None \<Rightarrow> Inr (dict_get kvs ''count'' (JInt 0)))
      | JList xs \<Rightarrow> Inl AttributeError
      | JStr s \<Rightarrow> Inl AttributeError
      | _ \<Rightarrow> Inl TypeError)"

definition count_permits ::
  "pylib \<Rightarrow> remote \<Rightarrow> (string \<times> json) list \<Rightarrow> request list \<Rightarrow> tool_outcome" where
  "count_permits lib srv arguments sent =
     (case dict_get arguments ''where_clause'' (JStr ''1=1'') of
        JStr where_clause \<Rightarrow>
          (let answer = query_permit_api srv where_clause ''*'' None None True sent
           in case fst answer of
                Inl e \<Rightarrow> Some (Inl e, snd answer)
              | Inr data \<Rightarrow>
                  (case extract_count data of
                     Inl e \<Rightarrow> Some (Inl e, snd answer)
                   | Inr cnt \<Rightarrow>
                       Some (Inr [''Found '' @ py_str lib cnt
                                  @ '' permit(s) matching the query: '' @ where_clause],
                             snd answer)))
      | _ \<Rightarrow> Some (Inl NotModelled, sent))"

definition call_tool ::
  "pylib \<Rightarrow> remote \<Rightarrow> string \<Rightarrow> (string \<times> json) list \<Rightarrow> request list \<Rightarrow> tool_outcome" where
  "call_tool lib srv name arguments sent =
     (if name = ''search_permits_by_address''
      then search_permits_by_address lib srv arguments sent
      else if name = ''search_permits_by_date_range''
      then search_permits_by_date_range lib srv arguments sent
      else if name = ''search_permits_by_neighborhood''
      then search_permits_by_neighborhood lib srv arguments sent
      else if name = ''search_permits_by_case_number''
      then search_permits_by_case_number lib srv arguments sent
      else if name = ''get_recent_permits''
      then get_recent_permits lib srv arguments sent
      else if name = ''count_permits''
      then count_permits lib srv arguments sent
      else Some (Inl (ValueError (''Unknown tool: '' @ name)), sent))"

section \<open>Remote services and inputs used in the statements\<close>

text \<open>
  A remote service that does what the interface promises, over a fixed list \<open>recs\<close> of
  matching records and with a ceiling \<open>cap\<close> on the records of one response: it returns
  the records from \<open>resultOffset\<close> on, at most \<open>resultRecordCount\<close> and at most \<open>cap\<close> of
  them, and sets \<open>exceededTransferLimit\<close> exactly when records remain beyond the page.
\<close>

definition honest_remote :: "json list \<Rightarrow> int \<Rightarrow> remote" where
  "honest_remote recs cap sent rq =
     (let start = (case resultOffset rq of None \<Rightarrow> 0 | Some i \<Rightarrow> nat i);
          n = (case resultRecordCount rq of None \<Rightarrow> nat cap | Some c \<Rightarrow> nat (min c cap));
          page = take n (drop start recs)
      in Body (JObj [(''type'', JStr ''FeatureCollection''),
                     (''features'', JList page),
                     (''exceededTransferLimit'', JBool (start + length page < length recs))]))"

text \<open>A remote service that always has more: every page is full and flagged.\<close>

definition unending_remote :: remote where
  "unending_remote sent rq =
     Body (JObj [(''features'',
                  JList (replicate (case resultRecordCount rq of None \<Rightarrow> 0 | Some c \<Rightarrow> nat c)
                           (JObj []))),
                 (''exceededTransferLimit'', JBool True)])"

text \<open>A permit feature with the given issue time.\<close>

definition sample_permit :: "int \<Rightarrow> json" where
  "sample_permit t = JObj [(''properties'', JObj [(''IssuedDate'', JInt t)])]"


text \<open>A remote service whose second answer is a timeout; its first is a full, flagged page.\<close>

definition flaky_remote :: remote where
  "flaky_remote sent rq =
     (if length sent = 1 then HTTPError ''timed out''
      else Body (JObj [(''features'', JList [sample_permit 1, sample_permit 2]),
                       (''exceededTransferLimit'', JBool True)]))"

text \<open>
  How the remote side reads a quoted literal of a filter expression (standard SQL): after
  the opening quote, two quote characters stand for one, and a single quote character
  closes the literal. The result is the literal's text and the input that follows it;
  \<open>None\<close> is a literal that is never closed.
\<close>

fun sql_literal_body :: "string \<Rightarrow> (string \<times> string) option" where
  "sql_literal_body [] = None"
| "sql_literal_body [c] = (if c = sq then Some ([], []) else None)"
| "sql_literal_body (c # d # cs) =
     (if c = sq then
        (if d = sq then map_option (\<lambda>(body, rest). (sq # body, rest)) (sql_literal_body cs)
         else Some ([], d # cs))
      else map_option (\<lambda>(body, rest). (c # body, rest)) (sql_literal_body (d # cs)))"




section \<open>One round of the loop\<close>

lemma truthy_iter_nonempty: "truthy v \<Longrightarrow> py_iter v = Inr fs \<Longrightarrow> fs \<noteq> []"
  by (cases v) auto

lemma loop_stop:
  "\<not> (case mr of None \<Rightarrow> True | Some m \<Rightarrow> int (length acc) < m)
     \<Longrightarrow> pagination_loop srv w f mr P acc off sent = Some (Inr (collection_of acc), sent)"
  by (subst pagination_loop.simps) simp

lemma loop_page:
  assumes go: "case mr of None \<Rightarrow> True | Some m \<Rightarrow> int (length acc) < m"
    and b: "b = (case mr of None \<Rightarrow> P | Some m \<Rightarrow> min P (m - int (length acc)))"
    and rq: "rq = build_params w f (Some off) (Some b) False"
    and ans: "srv sent rq = Body (JObj kvs)"
    and page: "map_of kvs ''features'' = Some (JList page)"
  shows "pagination_loop srv w f mr P acc off sent =
     (if page = [] then Some (Inr (collection_of acc), sent @ [rq])
      else if int (length page) < b then Some (Inr (collection_of (acc @ page)), sent @ [rq])
      else if \<not> truthy (case map_of kvs ''exceededTransferLimit'' of
                           None \<Rightarrow> JBool False | Some v \<Rightarrow> v)
      then Some (Inr (collection_of (acc @ page)), sent @ [rq])
      else pagination_loop srv w f mr P (acc @ page) (off + int (length page)) (sent @ [rq]))"
  apply (subst pagination_loop.simps)
  using go ans page
  apply (simp add: query_permit_api_def Let_def b[symmetric] rq[symmetric])
  done

lemma loop_http_error:
  assumes go: "case mr of None \<Rightarrow> True | Some m \<Rightarrow> int (length acc) < m"
    and b: "b = (case mr of None \<Rightarrow> P | Some m \<Rightarrow> min P (m - int (length acc)))"
    and rq: "rq = build_params w f (Some off) (Some b) False"
    and ans: "srv sent rq = HTTPError msg"
  shows "pagination_loop srv w f mr P acc off sent =
           Some (Inl (Exception (''Failed to fetch permit data: '' @ msg)), sent @ [rq])"
  apply (subst pagination_loop.simps)
  using go ans
  apply (simp add: query_permit_api_def Let_def b[symmetric] rq[symmetric])
  done

section \<open>A bounded fetch always returns\<close>

text \<open>
  With \<open>max_records = m\<close> every round that goes on has added at least one record, so the
  loop returns after at most \<open>m\<close> requests, whatever the remote service answers. Each
  request carries the filter and the fields of the call, and asks for a positive number
  of records when the page size is positive.
\<close>

lemma loop_bounded:
  "\<exists>out new. pagination_loop srv w f (Some m) P acc off sent = Some (out, sent @ new)
      \<and> length new \<le> nat (m - int (length acc))
      \<and> (\<forall>r\<in>set new. where_param r = w \<and> outFields r = f)
      \<and> (0 < P \<longrightarrow> (\<forall>r\<in>set new. \<exists>c. resultRecordCount r = Some c \<and> 0 < c))"
proof (induction "nat (m - int (length acc))" arbitrary: acc off sent rule: less_induct)
  case less
  show ?case
  proof (cases "int (length acc) < m")
    case False
    then show ?thesis
      by (subst pagination_loop.simps) simp
  next
    case True
    define b where "b = min P (m - int (length acc))"
    define rq where "rq = build_params w f (Some off) (Some b) False"
    have rqc: "resultRecordCount rq = Some b" "where_param rq = w" "outFields rq = f"
      by (simp_all add: rq_def build_params_def)
    have bpos: "0 < P \<Longrightarrow> 0 < b"
      using True by (simp add: b_def)
    have again: "\<exists>out new. pagination_loop srv w f (Some m) P (acc @ fs) off' (sent @ [rq])
                    = Some (out, sent @ new)
        \<and> length new \<le> nat (m - int (length acc))
        \<and> (\<forall>r\<in>set new. where_param r = w \<and> outFields r = f)
        \<and> (0 < P \<longrightarrow> (\<forall>r\<in>set new. \<exists>c. resultRecordCount r = Some c \<and> 0 < c))"
      if "fs \<noteq> []" for fs off'
    proof -
      from that True have "nat (m - int (length (acc @ fs))) < nat (m - int (length acc))"
        by (cases fs) auto
      from less[OF this, of off' "sent @ [rq]"] obtain out new where
        "pagination_loop srv w f (Some m) P (acc @ fs) off' (sent @ [rq])
           = Some (out, (sent @ [rq]) @ new)"
        "length new \<le> nat (m - int (length (acc @ fs)))"
        "\<forall>r\<in>set new. where_param r = w \<and> outFields r = f"
        "0 < P \<longrightarrow> (\<forall>r\<in>set new. \<exists>c. resultRecordCount r = Some c \<and> 0 < c)"
        by blast
      then have "pagination_loop srv w f (Some m) P (acc @ fs) off' (sent @ [rq])
                   = Some (out, sent @ (rq # new))
        \<and> length (rq # new) \<le> nat (m - int (length acc))
        \<and> (\<forall>r\<in>set (rq # new). where_param r = w \<and> outFields r = f)
        \<and> (0 < P \<longrightarrow> (\<forall>r\<in>set (rq # new). \<exists>c. resultRecordCount r = Some c \<and> 0 < c))"
        using that True rqc bpos by (cases fs) auto
      then show ?thesis by blast
    qed
    have one: "length [rq] \<le> nat (m - int (length acc))"
      using True by simp
    show ?thesis
      apply (subst pagination_loop.simps)
      using True one rqc bpos again
      apply (simp add: query_permit_api_def Let_def b_def[symmetric] rq_def[symmetric]
                  split: response.split sum.split)
      apply (auto dest: truthy_iter_nonempty)
      done
  qed
qed

section \<open>An unbounded fetch may never return\<close>

lemma unending_never_returns:
  assumes ret: "pagination_loop srv w f mr P acc off sent = Some y"
  shows "\<not> (srv = unending_remote \<and> mr = None \<and> 0 < P)"
proof (rule pagination_loop.raw_induct
    [where P = "\<lambda>srv w f mr P acc off sent y. \<not> (srv = unending_remote \<and> mr = None \<and> 0 < P)",
      OF _ ret])
  fix g :: "remote \<Rightarrow> string \<Rightarrow> string \<Rightarrow> int option \<Rightarrow> int \<Rightarrow> json list \<Rightarrow> int \<Rightarrow> request list
     \<Rightarrow> (collection result \<times> request list) option"
  fix srv w f mr P acc off sent y
  assume IH: "\<And>srv w f mr P acc off sent y. g srv w f mr P acc off sent = Some y
                \<Longrightarrow> \<not> (srv = unending_remote \<and> mr = None \<and> 0 < P)"
  assume eq: "(if (case mr of None \<Rightarrow> True | Some m \<Rightarrow> int (length acc) < m) then
        (let batch_size = (case mr of
                             None \<Rightarrow> P
                           | Some m \<Rightarrow> min P (m - int (length acc)));
             answer = query_permit_api srv w f (Some off) (Some batch_size) False sent
         in (case fst answer of
               Inl e \<Rightarrow> Some (Inl e, snd answer)
             | Inr data \<Rightarrow>
                 (case py_get data ''features'' (JList []) of
                    Inl e \<Rightarrow> Some (Inl e, snd answer)
                  | Inr feats \<Rightarrow>
                      if \<not> truthy feats then Some (Inr (collection_of acc), snd answer)
                      else (case py_iter feats of
                              Inl e \<Rightarrow> Some (Inl e, snd answer)
                            | Inr fs \<Rightarrow>
                                if int (length fs) < batch_size
                                then Some (Inr (collection_of (acc @ fs)), snd answer)
                                else (case py_get data ''exceededTransferLimit'' (JBool False) of
                                        Inl e \<Rightarrow> Some (Inl e, snd answer)
                                      | Inr flag \<Rightarrow>
                                          if \<not> truthy flag
                                          then Some (Inr (collection_of (acc @ fs)), snd answer)
                                          else g srv w f mr P (acc @ fs)
                                                 (off + int (length fs)) (snd answer))))))
      else Some (Inr (collection_of acc), sent)) = Some y"
  show "\<not> (srv = unending_remote \<and> mr = None \<and> 0 < P)"
  proof
    assume a: "srv = unending_remote \<and> mr = None \<and> 0 < P"
    with eq have "g srv w f mr P (acc @ replicate (nat P) (JObj []))
                    (off + int (length (replicate (nat P) (JObj []))))
                    (sent @ [build_params w f (Some off) (Some P) False]) = Some y"
      by (simp add: query_permit_api_def unending_remote_def build_params_def Let_def)
    from IH[OF this] a show False by simp
  qed
qed

text \<open>
  C3, the claim as stated: the loop ends after finitely many rounds for every
  \<open>max_records\<close>, unset included, and every remote service. It does not: with
  \<open>max_records\<close> unset and the default page size, the call never returns against a
  remote service that keeps sending full pages flagged as incomplete.
\<close>

theorem unbounded_fetch_never_returns:
  "query_permit_api_paginated unending_remote ''1=1'' ''*'' None 1000 [] = None"
proof (cases "query_permit_api_paginated unending_remote ''1=1'' ''*'' None 1000 []")
  case None
  then show ?thesis .
next
  case (Some y)
  then have "pagination_loop unending_remote ''1=1'' ''*'' None 1000 [] 0 [] = Some y"
    by (simp add: query_permit_api_paginated_def)
  from unending_never_returns[OF this] show ?thesis by simp
qed

text \<open>
  C3, amended: for every filter, every \<open>max_records\<close> that is set, every page size and
  every remote service, the pagination loop returns, after at most \<open>max_records\<close>
  requests (none when \<open>max_records\<close> is zero or negative).
\<close>

theorem bounded_fetch_returns:
  "\<exists>out sent. query_permit_api_paginated srv w f (Some m) P [] = Some (out, sent)
      \<and> length sent \<le> nat m"
proof -
  from loop_bounded[of srv w f m P "[]" 0 "[]"] obtain out new where
    "pagination_loop srv w f (Some m) P [] 0 [] = Some (out, [] @ new)"
    "length new \<le> nat (m - int (length ([]::json list)))" by blast
  then show ?thesis
    by (auto simp: query_permit_api_paginated_def)
qed

section \<open>A fetch against a service that keeps the interface\<close>









section \<open>The exact-boundary fetch\<close>

text \<open>
  C2: with \<open>max_records\<close> equal to the (positive) page size, the fetch issues exactly one
  request, whatever the remote service answers; and when that answer is a full page,
  the page is the result. After a full page the budget is met, so the loop guard ends
  the fetch whether or not the service flags more data: no second round follows.
\<close>

theorem exact_boundary_single_round:
  assumes "0 < P"
  shows "(\<exists>out. query_permit_api_paginated srv w f (Some P) P []
                  = Some (out, [build_params w f (Some 0) (Some P) False]))
       \<and> (srv [] (build_params w f (Some 0) (Some P) False) = Body (JObj kvs)
            \<longrightarrow> map_of kvs ''features'' = Some (JList page)
            \<longrightarrow> int (length page) = P
            \<longrightarrow> query_permit_api_paginated srv w f (Some P) P []
                  = Some (Inr (collection_of page), [build_params w f (Some 0) (Some P) False]))"
proof (intro conjI impI)
  let ?rq = "build_params w f (Some 0) (Some P) False"
  have full: "pagination_loop srv w f (Some P) P fs off' [?rq] = Some (Inr (collection_of fs), [?rq])"
    if "\<not> int (length fs) < P" for fs off'
    using that by (intro loop_stop) simp
  show "\<exists>out. query_permit_api_paginated srv w f (Some P) P [] = Some (out, [?rq])"
    unfolding query_permit_api_paginated_def
    apply (subst pagination_loop.simps)
    using assms full
    apply (simp add: query_permit_api_def Let_def split: response.split sum.split)
    done
next
  let ?rq = "build_params w f (Some 0) (Some P) False"
  assume ans: "srv [] ?rq = Body (JObj kvs)"
    and pg: "map_of kvs ''features'' = Some (JList page)"
    and len: "int (length page) = P"
  have go: "case Some P of None \<Rightarrow> True | Some m \<Rightarrow> int (length ([]::json list)) < m"
    using assms by simp
  have bb: "P = (case Some P of None \<Rightarrow> P | Some m \<Rightarrow> min P (m - int (length ([]::json list))))"
    by simp
  have ne: "page \<noteq> []" using len assms by auto
  have stop: "pagination_loop srv w f (Some P) P page (0 + int (length page)) ([] @ [?rq])
                = Some (Inr (collection_of page), [] @ [?rq])"
    using len by (intro loop_stop) simp
  show "query_permit_api_paginated srv w f (Some P) P [] = Some (Inr (collection_of page), [?rq])"
    unfolding query_permit_api_paginated_def
    using loop_page[where srv = srv and sent = "[]" and acc = "[]", OF go bb refl ans pg] ne len stop
    by simp
qed


theorem exact_boundary_single_round_witness:
  "(0::int) < 2
   \<and> query_permit_api_paginated flaky_remote ''1=1'' ''*'' (Some 2) 2 []
       = Some (Inr (collection_of [sample_permit 1, sample_permit 2]),
               [build_params ''1=1'' ''*'' (Some 0) (Some 2) False])"
  using exact_boundary_single_round[of 2 flaky_remote "''1=1''" "''*''"
          "[(''features'', JList [sample_permit 1, sample_permit 2]),
            (''exceededTransferLimit'', JBool True)]"
          "[sample_permit 1, sample_permit 2]"]
  by (simp add: flaky_remote_def)

section \<open>Transport errors\<close>

lemma loop_error_is_last:
  assumes ret: "pagination_loop srv w f mr P acc off sent = Some y"
  shows "\<exists>new. snd y = sent @ new
           \<and> (\<forall>i<length new. \<forall>msg. srv (sent @ take i new) (new ! i) = HTTPError msg
                 \<longrightarrow> fst y = Inl (Exception (''Failed to fetch permit data: '' @ msg))
                     \<and> Suc i = length new)"
proof (rule pagination_loop.raw_induct
    [where P = "\<lambda>srv w f mr P acc off sent y. \<exists>new. snd y = sent @ new
           \<and> (\<forall>i<length new. \<forall>msg. srv (sent @ take i new) (new ! i) = HTTPError msg
                 \<longrightarrow> fst y = Inl (Exception (''Failed to fetch permit data: '' @ msg))
                     \<and> Suc i = length new)",
      OF _ ret])
  fix g :: "remote \<Rightarrow> string \<Rightarrow> string \<Rightarrow> int option \<Rightarrow> int \<Rightarrow> json list \<Rightarrow> int \<Rightarrow> request list
     \<Rightarrow> (collection result \<times> request list) option"
  fix srv w f mr P acc off sent y
  assume IH: "\<And>srv w f mr P acc off sent y. g srv w f mr P acc off sent = Some y
                \<Longrightarrow> \<exists>new. snd y = sent @ new
           \<and> (\<forall>i<length new. \<forall>msg. srv (sent @ take i new) (new ! i) = HTTPError msg
                 \<longrightarrow> fst y = Inl (Exception (''Failed to fetch permit data: '' @ msg))
                     \<and> Suc i = length new)"
  assume eq: "(if (case mr of None \<Rightarrow> True | Some m \<Rightarrow> int (length acc) < m) then
        (let batch_size = (case mr of
                             None \<Rightarrow> P
                           | Some m \<Rightarrow> min P (m - int (length acc)));
             answer = query_permit_api srv w f (Some off) (Some batch_size) False sent
         in (case fst answer of
               Inl e \<Rightarrow> Some (Inl e, snd answer)
             | Inr data \<Rightarrow>
                 (case py_get data ''features'' (JList []) of
                    Inl e \<Rightarrow> Some (Inl e, snd answer)
                  | Inr feats \<Rightarrow>
                      if \<not> truthy feats then Some (Inr (collection_of acc), snd answer)
                      else (case py_iter feats of
                              Inl e \<Rightarrow> Some (Inl e, snd answer)
                            | Inr fs \<Rightarrow>
                                if int (length fs) < batch_size
                                then Some (Inr (collection_of (acc @ fs)), snd answer)
                                else (case py_get data ''exceededTransferLimit'' (JBool False) of
                                        Inl e \<Rightarrow> Some (Inl e, snd answer)
                                      | Inr flag \<Rightarrow>
                                          if \<not> truthy flag
                                          then Some (Inr (collection_of (acc @ fs)), snd answer)
                                          else g srv w f mr P (acc @ fs)
                                                 (off + int (length fs)) (snd answer))))))
      else Some (Inr (collection_of acc), sent)) = Some y"
  define b where "b = (case mr of None \<Rightarrow> P | Some m \<Rightarrow> min P (m - int (length acc)))"
  define rq where "rq = build_params w f (Some off) (Some b) False"
  let ?goal = "\<exists>new. snd y = sent @ new
           \<and> (\<forall>i<length new. \<forall>msg. srv (sent @ take i new) (new ! i) = HTTPError msg
                 \<longrightarrow> fst y = Inl (Exception (''Failed to fetch permit data: '' @ msg))
                     \<and> Suc i = length new)"
  have single: ?goal
    if "snd y = sent @ [rq]"
      and "\<And>msg. srv sent rq = HTTPError msg
             \<Longrightarrow> fst y = Inl (Exception (''Failed to fetch permit data: '' @ msg))"
  proof -
    have "snd y = sent @ [rq] \<and> (\<forall>i<length [rq]. \<forall>msg. srv (sent @ take i [rq]) ([rq] ! i) = HTTPError msg
                 \<longrightarrow> fst y = Inl (Exception (''Failed to fetch permit data: '' @ msg))
                     \<and> Suc i = length [rq])"
      using that by simp
    then show ?thesis by blast
  qed
  have again: ?goal
    if r: "g srv w f mr P acc' off' (sent @ [rq]) = Some y" and ok: "srv sent rq = Body data"
    for acc' off' data
  proof -
    from IH[OF r] obtain new where
      n: "snd y = (sent @ [rq]) @ new"
         "\<forall>i<length new. \<forall>msg. srv ((sent @ [rq]) @ take i new) (new ! i) = HTTPError msg
                 \<longrightarrow> fst y = Inl (Exception (''Failed to fetch permit data: '' @ msg))
                     \<and> Suc i = length new" by blast
    have "\<forall>i<length (rq # new). \<forall>msg. srv (sent @ take i (rq # new)) ((rq # new) ! i) = HTTPError msg
                 \<longrightarrow> fst y = Inl (Exception (''Failed to fetch permit data: '' @ msg))
                     \<and> Suc i = length (rq # new)"
    proof (intro allI impI)
      fix i msg
      assume i: "i < length (rq # new)"
        and e: "srv (sent @ take i (rq # new)) ((rq # new) ! i) = HTTPError msg"
      show "fst y = Inl (Exception (''Failed to fetch permit data: '' @ msg))
                     \<and> Suc i = length (rq # new)"
      proof (cases i)
        case 0
        with e ok show ?thesis by simp
      next
        case (Suc j)
        with i e n(2) show ?thesis by simp
      qed
    qed
    with n(1) have "snd y = sent @ (rq # new) \<and> (\<forall>i<length (rq # new). \<forall>msg. srv (sent @ take i (rq # new)) ((rq # new) ! i) = HTTPError msg
                 \<longrightarrow> fst y = Inl (Exception (''Failed to fetch permit data: '' @ msg))
                     \<and> Suc i = length (rq # new))" by simp
    then show ?thesis by blast
  qed
  show ?goal
  proof (cases "case mr of None \<Rightarrow> True | Some m \<Rightarrow> int (length acc) < m")
    case False
    with eq have "y = (Inr (collection_of acc), sent)" by simp
    then have "snd y = sent @ [] \<and> (\<forall>i<length ([]::request list). \<forall>msg. srv (sent @ take i []) ([] ! i) = HTTPError msg
                 \<longrightarrow> fst y = Inl (Exception (''Failed to fetch permit data: '' @ msg))
                     \<and> Suc i = length ([]::request list))" by simp
    then show ?thesis by blast
  next
    case True
    with eq single again show ?thesis
      apply (simp add: query_permit_api_def Let_def b_def[symmetric] rq_def[symmetric]
                  split: response.splits sum.splits if_splits)
      apply (auto)
      done
  qed
qed

text \<open>The handlers have no \<open>try\<close> around the fetch: its exception is the outcome of the call.\<close>

lemma fetch_error_reaches_caller:
  assumes "query_permit_api_paginated srv w ''*'' mr 1000 sent = Some (Inl e, sent')"
  shows "where_address (dict_get arguments ''address'' (JStr [])) = Inr w
           \<Longrightarrow> limit_of (dict_get arguments ''limit'' (JInt 50)) = Inr mr
           \<Longrightarrow> call_tool lib srv ''search_permits_by_address'' arguments sent
                 = Some (Inl e, sent')"
    and "where_neighborhood (dict_get arguments ''neighborhood'' (JStr [])) = Inr w
           \<Longrightarrow> limit_of (dict_get arguments ''limit'' (JInt 50)) = Inr mr
           \<Longrightarrow> call_tool lib srv ''search_permits_by_neighborhood'' arguments sent
                 = Some (Inl e, sent')"
    and "parse_date lib (dict_get arguments ''start_date'' (JStr [])) = Inr start_ts
           \<Longrightarrow> parse_date lib (dict_get arguments ''end_date'' (JStr [])) = Inr end_ts
           \<Longrightarrow> w = ''IssuedDate >= '' @ show_int start_ts
                      @ '' AND IssuedDate <= '' @ show_int end_ts
           \<Longrightarrow> limit_of (dict_get arguments ''limit'' (JInt 50)) = Inr mr
           \<Longrightarrow> call_tool lib srv ''search_permits_by_date_range'' arguments sent
                 = Some (Inl e, sent')"
    and "num_of (dict_get arguments ''days'' (JInt 30)) = Some d
           \<Longrightarrow> cutoff_ms lib d = Inr cutoff
           \<Longrightarrow> w = ''IssuedDate >= '' @ show_int cutoff
           \<Longrightarrow> int_limit_of (dict_get arguments ''limit'' (JInt 50)) = Inr n
           \<Longrightarrow> mr = Some (n * 2)
           \<Longrightarrow> call_tool lib srv ''get_recent_permits'' arguments sent = Some (Inl e, sent')"
  using assms
  by (simp_all add: call_tool_def search_permits_by_address_def
        search_permits_by_neighborhood_def search_permits_by_date_range_def
        get_recent_permits_def and_then_def Let_def)


text \<open>
  C6: a round whose request is answered with a transport or HTTP error ends the loop at
  once with the exception that wraps the cause, whatever has been accumulated; and in
  every fetch that returns, a request answered with such an error is the last request of
  the fetch (nothing is retried) and the outcome is that exception, not a collection.
\<close>

theorem transport_error_aborts_fetch:
  "((case mr of None \<Rightarrow> True | Some m \<Rightarrow> int (length acc) < m)
      \<longrightarrow> srv sent (build_params w f (Some off)
                      (Some (case mr of None \<Rightarrow> P | Some m \<Rightarrow> min P (m - int (length acc))))
                      False) = HTTPError msg
      \<longrightarrow> pagination_loop srv w f mr P acc off sent
            = Some (Inl (Exception (''Failed to fetch permit data: '' @ msg)),
                    sent @ [build_params w f (Some off)
                      (Some (case mr of None \<Rightarrow> P | Some m \<Rightarrow> min P (m - int (length acc))))
                      False]))
   \<and> (query_permit_api_paginated srv w f mr P [] = Some (out, issued)
      \<longrightarrow> i < length issued
      \<longrightarrow> srv (take i issued) (issued ! i) = HTTPError msg
      \<longrightarrow> out = Inl (Exception (''Failed to fetch permit data: '' @ msg))
          \<and> Suc i = length issued)"
proof (intro conjI impI)
  assume "case mr of None \<Rightarrow> True | Some m \<Rightarrow> int (length acc) < m"
    and "srv sent (build_params w f (Some off)
                      (Some (case mr of None \<Rightarrow> P | Some m \<Rightarrow> min P (m - int (length acc))))
                      False) = HTTPError msg"
  then show "pagination_loop srv w f mr P acc off sent
            = Some (Inl (Exception (''Failed to fetch permit data: '' @ msg)),
                    sent @ [build_params w f (Some off)
                      (Some (case mr of None \<Rightarrow> P | Some m \<Rightarrow> min P (m - int (length acc))))
                      False])"
    by (intro loop_http_error[where srv = srv and sent = sent, OF _ refl refl])
next
  assume ret: "query_permit_api_paginated srv w f mr P [] = Some (out, issued)"
    and i: "i < length issued"
    and e: "srv (take i issued) (issued ! i) = HTTPError msg"
  from ret have "pagination_loop srv w f mr P [] 0 [] = Some (out, issued)"
    by (simp add: query_permit_api_paginated_def)
  from loop_error_is_last[OF this] i e
  have "out = Inl (Exception (''Failed to fetch permit data: '' @ msg)) \<and> Suc i = length issued"
    by simp
  then show "out = Inl (Exception (''Failed to fetch permit data: '' @ msg))"
    and "Suc i = length issued" by simp_all
qed

theorem transport_error_aborts_fetch_witness:
  "pagination_loop flaky_remote ''1=1'' ''*'' (Some 5) 2 [sample_permit 1, sample_permit 2] 2
       [build_params ''1=1'' ''*'' (Some 0) (Some 2) False]
     = Some (Inl (Exception ''Failed to fetch permit data: timed out''),
             [build_params ''1=1'' ''*'' (Some 0) (Some 2) False,
              build_params ''1=1'' ''*'' (Some 2) (Some 2) False])
   \<and> query_permit_api_paginated flaky_remote ''1=1'' ''*'' (Some 5) 2 []
     = Some (Inl (Exception ''Failed to fetch permit data: timed out''),
             [build_params ''1=1'' ''*'' (Some 0) (Some 2) False,
              build_params ''1=1'' ''*'' (Some 2) (Some 2) False])
   \<and> Suc 1 = length [build_params ''1=1'' ''*'' (Some 0) (Some 2) False,
                       build_params ''1=1'' ''*'' (Some 2) (Some 2) False]"
proof -
  let ?rq0 = "build_params ''1=1'' ''*'' (Some 0) (Some 2) False"
  let ?rq1 = "build_params ''1=1'' ''*'' (Some 2) (Some 2) False"
  let ?err = "Inl (Exception ''Failed to fetch permit data: timed out'') :: collection result"
  have step: "pagination_loop flaky_remote ''1=1'' ''*'' (Some 5) 2
                [sample_permit 1, sample_permit 2] 2 [?rq0] = Some (?err, [?rq0, ?rq1])"
    using transport_error_aborts_fetch[where mr = "Some 5"
            and acc = "[sample_permit 1, sample_permit 2]" and srv = flaky_remote
            and sent = "[?rq0]" and w = "''1=1''" and f = "''*''" and off = 2 and P = 2
            and msg = "''timed out''"]
    by (simp add: flaky_remote_def)
  have run: "query_permit_api_paginated flaky_remote ''1=1'' ''*'' (Some 5) 2 []
               = Some (?err, [?rq0, ?rq1])"
    unfolding query_permit_api_paginated_def
    apply (subst pagination_loop.simps)
    apply (simp add: query_permit_api_def flaky_remote_def Let_def step)
    done
  have "flaky_remote (take 1 [?rq0, ?rq1]) ([?rq0, ?rq1] ! 1) = HTTPError ''timed out''"
    by (simp add: flaky_remote_def)
  with transport_error_aborts_fetch[where mr = "Some 5" and srv = flaky_remote
      and w = "''1=1''" and f = "''*''" and P = 2 and msg = "''timed out''"
      and out = ?err and issued = "[?rq0, ?rq1]" and i = 1] run
  have "Suc 1 = length [?rq0, ?rq1]" by simp
  with step run show ?thesis by simp
qed

section \<open>The record formatter on records with null or malformed fields\<close>

text \<open>
  C4: the claim is that \<open>format_permit\<close> returns a text block for every record, null
  geometry, non-string description and non-numeric cost included. The code does not:
  \<open>permit.get("geometry", {})\<close> yields \<open>None\<close> for a geometry that is present and null, and
  \<open>None\<close> has no \<open>get\<close>; \<open>None[:200]\<close> raises \<open>TypeError\<close>; and the \<open>f\<close> format of a string
  raises \<open>ValueError\<close>. Only the two timestamp blocks are guarded by \<open>try\<close>.
\<close>

theorem format_permit_raises:
  "format_permit lib (JObj [(''properties'', JObj [(''CaseNumber'', JStr ''COM2018-86246'')]),
                            (''geometry'', JNull)]) = Inl AttributeError
   \<and> format_permit lib (JObj [(''properties'', JObj [(''Description'', JNull)])]) = Inl TypeError
   \<and> format_permit lib (JObj [(''properties'', JObj [(''Cost'', JStr ''unknown'')])])
       = Inl (ValueError (''Unknown format code '' @ [sq] @ ''f'' @ [sq]
                          @ '' for object of type '' @ [sq] @ ''str'' @ [sq]))"
  by (simp add: format_permit_def and_then_def format_timestamp_def format_coords_def
        description_field_def py_format_f_def)

section \<open>Filter expressions\<close>

text \<open>
  C5: the claim is that an empty filter value gives the match-everything predicate in
  both the by-address and the by-neighborhood operation. The by-address branch does so;
  the by-neighborhood branch has no such test and sends a \<open>LIKE\<close> pattern, here against a
  service with no records.
\<close>

theorem empty_neighborhood_is_not_match_all:
  "call_tool lib (honest_remote [] 1000) ''search_permits_by_neighborhood''
       [(''neighborhood'', JStr [])] []
     = Some (Inr [''No permits found in neighborhood: ''],
             [build_params (''Neighborhood LIKE '' @ [sq] @ ''%%'' @ [sq]) ''*''
                (Some 0) (Some 50) False])
   \<and> where_neighborhood (JStr []) \<noteq> Inr ''1=1''
   \<and> where_address (JStr []) = Inr ''1=1''"
  apply (simp add: call_tool_def search_permits_by_neighborhood_def dict_get_def
      where_neighborhood_def where_address_def limit_of_def py_replace_quote_def
      query_permit_api_paginated_def py_str_def)
  apply (subst pagination_loop.simps)
  apply (simp add: query_permit_api_def honest_remote_def build_params_def Let_def
      collection_of_def py_str_def)
  done

lemma py_replace_quote_simps:
  "py_replace_quote [] = []"
  "py_replace_quote (c # s) = (if c = sq then [sq, sq] else [c]) @ py_replace_quote s"
  by (simp_all add: py_replace_quote_def)

lemma py_replace_quote_empty: "py_replace_quote s = [] \<longleftrightarrow> s = []"
  by (cases s) (simp_all add: py_replace_quote_simps)

lemma sql_literal_body_escaped:
  "sql_literal_body (py_replace_quote s @ t)
     = map_option (\<lambda>(body, rest). (s @ body, rest)) (sql_literal_body t)"
proof (induction s)
  case Nil
  show ?case by (simp add: py_replace_quote_simps option.map_ident case_prod_unfold)
next
  case (Cons c s)
  show ?case
  proof (cases "c = sq")
    case True
    with Cons show ?thesis
      by (simp add: py_replace_quote_simps option.map_comp comp_def case_prod_unfold)
  next
    case False
    show ?thesis
    proof (cases "py_replace_quote s @ t")
      case Nil
      then have "s = []" "t = []" by (simp_all add: py_replace_quote_empty)
      with False show ?thesis by (simp add: py_replace_quote_simps)
    next
      case (Cons d ds)
      with False Cons.IH show ?thesis
        by (simp add: py_replace_quote_simps option.map_comp comp_def case_prod_unfold)
    qed
  qed
qed

lemma sql_literal_percent:
  "sql_literal_body (''%'' @ py_replace_quote s @ ''%'' @ [sq]) = Some (''%'' @ s @ ''%'', [])"
proof -
  have "sql_literal_body (CHR ''%'' # (py_replace_quote s @ ''%'' @ [sq]))
          = map_option (\<lambda>(body, rest). (CHR ''%'' # body, rest))
              (sql_literal_body (py_replace_quote s @ ''%'' @ [sq]))"
    by (cases "py_replace_quote s @ ''%'' @ [sq]") simp_all
  then show ?thesis
    by (simp add: sql_literal_body_escaped)
qed

text \<open>
  C7: in the filter expression built from an address (when it is not empty), a
  neighborhood or a case number, the user's text stands between two quote characters with
  each of its own quote characters doubled: the filter is a well-formed literal, which the
  remote side reads back as exactly the user's text (between the \<open>%\<close> wildcards for the two
  \<open>LIKE\<close> filters), up to the closing quote and no further. The escaped text has twice
  the quote characters of the original and the same other characters.
\<close>

theorem quotes_doubled_in_filter_literals:
  "(s \<noteq> [] \<longrightarrow>
      (\<exists>body. where_address (JStr s) = Inr (''Address LIKE '' @ [sq] @ body @ [sq])
          \<and> sql_literal_body (body @ [sq]) = Some (''%'' @ s @ ''%'', [])))
   \<and> (\<exists>body. where_neighborhood (JStr s) = Inr (''Neighborhood LIKE '' @ [sq] @ body @ [sq])
          \<and> sql_literal_body (body @ [sq]) = Some (''%'' @ s @ ''%'', []))
   \<and> (\<exists>body. where_case_number (JStr s) = Inr (''CaseNumber = '' @ [sq] @ body @ [sq])
          \<and> sql_literal_body (body @ [sq]) = Some (s, []))
   \<and> length (filter (\<lambda>c. c = sq) (py_replace_quote s)) = 2 * length (filter (\<lambda>c. c = sq) s)
   \<and> filter (\<lambda>c. c \<noteq> sq) (py_replace_quote s) = filter (\<lambda>c. c \<noteq> sq) s"
proof (intro conjI impI)
  assume "s \<noteq> []"
  then have "where_address (JStr s)
               = Inr (''Address LIKE '' @ [sq] @ (''%'' @ py_replace_quote s @ ''%'') @ [sq])"
    by (simp add: where_address_def)
  moreover have "sql_literal_body ((''%'' @ py_replace_quote s @ ''%'') @ [sq])
                   = Some (''%'' @ s @ ''%'', [])"
    using sql_literal_percent[of s] by simp
  ultimately show "\<exists>body. where_address (JStr s) = Inr (''Address LIKE '' @ [sq] @ body @ [sq])
          \<and> sql_literal_body (body @ [sq]) = Some (''%'' @ s @ ''%'', [])" by blast
next
  have "where_neighborhood (JStr s)
               = Inr (''Neighborhood LIKE '' @ [sq] @ (''%'' @ py_replace_quote s @ ''%'') @ [sq])"
    by (simp add: where_neighborhood_def)
  moreover have "sql_literal_body ((''%'' @ py_replace_quote s @ ''%'') @ [sq])
                   = Some (''%'' @ s @ ''%'', [])"
    using sql_literal_percent[of s] by simp
  ultimately show "\<exists>body. where_neighborhood (JStr s)
                      = Inr (''Neighborhood LIKE '' @ [sq] @ body @ [sq])
          \<and> sql_literal_body (body @ [sq]) = Some (''%'' @ s @ ''%'', [])" by blast
next
  have "where_case_number (JStr s) = Inr (''CaseNumber = '' @ [sq] @ py_replace_quote s @ [sq])"
    by (simp add: where_case_number_def)
  moreover have "sql_literal_body (py_replace_quote s @ [sq]) = Some (s, [])"
    by (simp add: sql_literal_body_escaped)
  ultimately show "\<exists>body. where_case_number (JStr s)
                      = Inr (''CaseNumber = '' @ [sq] @ body @ [sq])
          \<and> sql_literal_body (body @ [sq]) = Some (s, [])" by blast
next
  show "length (filter (\<lambda>c. c = sq) (py_replace_quote s)) = 2 * length (filter (\<lambda>c. c = sq) s)"
    by (induction s) (simp_all add: py_replace_quote_def)
  show "filter (\<lambda>c. c \<noteq> sq) (py_replace_quote s) = filter (\<lambda>c. c \<noteq> sq) s"
    by (induction s) (simp_all add: py_replace_quote_def)
qed

theorem quotes_doubled_in_filter_literals_witness:
  "''O'' @ [sq] @ ''Brien'' \<noteq> []
   \<and> where_address (JStr (''O'' @ [sq] @ ''Brien''))
       = Inr (''Address LIKE '' @ [sq] @ ''%O'' @ [sq, sq] @ ''Brien%'' @ [sq])
   \<and> sql_literal_body (''%O'' @ [sq, sq] @ ''Brien%'' @ [sq]) = Some (''%O'' @ [sq] @ ''Brien%'', [])"
  using quotes_doubled_in_filter_literals[of "''O'' @ [sq] @ ''Brien''"]
  by (simp add: where_address_def py_replace_quote_def)

section \<open>The date-range operation on malformed dates\<close>



section \<open>The count operation\<close>



section \<open>The recent-permits operation\<close>






lemma sorted_by_issued_desc_example:
  "sorted_by_issued_desc [sample_permit 1, sample_permit 3, sample_permit 2]
     = Inr [sample_permit 3, sample_permit 2, sample_permit 1]"
  by (simp add: sorted_by_issued_desc_def issued_key_def sample_permit_def and_then_def)




end
